theory Spec2Isabelle
  imports Main "HOL-Library.Word"
begin

section \<open>Data model of the logger package\<close>

subsection \<open>Levels and output types\<close>

text \<open>
  \<^verbatim>\<open>type Level = logrus.Level\<close>: an alias of the engine's level type, an unsigned 32-bit
  integer. The seven named levels are the engine's constants, numbered from the most
  severe (panic, 0) to the least (trace, 6). A configuration may carry any 32-bit value.
\<close>

type_synonym Level = "32 word"

definition PanicLevel :: Level where "PanicLevel = 0"
definition FatalLevel :: Level where "FatalLevel = 1"
definition ErrorLevel :: Level where "ErrorLevel = 2"
definition WarnLevel :: Level where "WarnLevel = 3"
definition InfoLevel :: Level where "InfoLevel = 4"
definition DebugLevel :: Level where "DebugLevel = 5"
definition TraceLevel :: Level where "TraceLevel = 6"

text \<open>\<^verbatim>\<open>type OutputType string\<close> with its three named constants; any string is a value.\<close>

type_synonym OutputType = string

definition ConsoleOutput :: OutputType where "ConsoleOutput = ''console''"
definition FileOutput :: OutputType where "FileOutput = ''file''"
definition BothOutput :: OutputType where "BothOutput = ''both''"

record Config =
  Level :: Level
  Output :: OutputType
  FilePath :: string
  Format :: string

subsection \<open>Errors\<close>

text \<open>
  Go errors as values. \<^verbatim>\<open>fmt.Errorf\<close> without \<^verbatim>\<open>%w\<close> gives a plain message
  (\<open>errorString\<close>); with \<^verbatim>\<open>%w\<close> it gives a message that wraps its cause (\<open>wrapError\<close>).
  \<open>PathError\<close> stands for what the operating system reports when a file cannot be
  opened.
\<close>

datatype error =
    errorString string
  | wrapError string error
  | PathError string

text \<open>The method \<^verbatim>\<open>Error()\<close> of an error value: its message.\<close>

fun err_Error :: "error \<Rightarrow> string" where
  "err_Error (errorString s) = s"
| "err_Error (wrapError s _) = s"
| "err_Error (PathError s) = s"

text \<open>\<^verbatim>\<open>fmt.Errorf(prefix + "%w", err)\<close>\<close>

definition fmt_Errorf_w :: "string \<Rightarrow> error \<Rightarrow> error" where
  "fmt_Errorf_w prefix err = wrapError (prefix @ err_Error err) err"

text \<open>The innermost cause of an error, following \<^verbatim>\<open>errors.Unwrap\<close> to the end.\<close>

fun rootCause :: "error \<Rightarrow> error" where
  "rootCause (wrapError _ e) = rootCause e"
| "rootCause e = e"

text \<open>
  The specification sorts the builder's errors into kinds; the code has one error type
  and tells them apart by message only. \<open>ConfigurationError\<close> is the specification's
  kind "invalid or incomplete configuration": the cause is one of the two validation
  messages of \<^verbatim>\<open>setupOutput\<close>, not an error of the operating system.
\<close>

definition ConfigurationError :: "error \<Rightarrow> bool" where
  "ConfigurationError e =
     (case rootCause e of
        errorString m \<Rightarrow>
          m = ''file path is required for file output''
          \<or> take (length ''unsupported output type: '') m = ''unsupported output type: ''
      | _ \<Rightarrow> False)"

subsection \<open>The logging engine, as far as the package uses it\<close>

text \<open>
  The engine (\<^verbatim>\<open>logrus\<close>) is an external library. The package sets and reads three
  things on an engine instance: the minimum level, the formatter and the output
  writer. An engine instance is a record of these three; the setters below are the
  field updates the engine's interface promises.
\<close>

datatype formatter =
    TextFormatter (FullTimestamp: bool)
  | JSONFormatter

datatype writer =
    os_Stdout
  | os_Stderr
  | os_File nat
  | io_MultiWriter "writer list"

record logrus_Logger =
  out :: writer
  formatter :: formatter
  level :: Level

text \<open>
  \<^verbatim>\<open>type Logger struct { logger *logrus.Logger; serviceName string }\<close>. The field
  \<open>logger\<close> is a pointer: an address into the store of engine instances.
\<close>

type_synonym addr = nat

record Logger =
  logger :: addr
  serviceName :: string

text \<open>
  The store. Engine instances and \<^verbatim>\<open>Logger\<close> structs are heap objects reached through
  pointers; several \<^verbatim>\<open>Logger\<close> structs may point to one engine. An address is an index
  into the list of allocated objects, allocation appends, and an address beyond the
  list is a nil or dangling pointer: dereferencing it panics (\<open>None\<close>).
\<close>

record heap =
  engines :: "logrus_Logger list"
  handles :: "Logger list"

definition deref :: "'a list \<Rightarrow> addr \<Rightarrow> 'a option" where
  "deref xs a = (if a < length xs then Some (xs ! a) else None)"

subsection \<open>The world outside the package\<close>

text \<open>
  What the package asks of its environment, taken as parameters:
  \<^item> \<open>logrus_defaults\<close>: the state of the instance that \<^verbatim>\<open>logrus.New()\<close> returns;
  \<^item> \<open>os_OpenFile\<close>: the outcome of
    \<^verbatim>\<open>os.OpenFile(path, os.O_CREATE|os.O_WRONLY|os.O_APPEND, 0640)\<close> for each path, an
    error or the descriptor of the opened file;
  \<^item> \<open>runtime_Caller\<close>: what \<^verbatim>\<open>runtime.Caller(skip)\<close> returns inside \<^verbatim>\<open>withFields\<close>
    during the call at hand, \<open>None\<close> when it reports \<^verbatim>\<open>ok = false\<close>;
  \<^item> \<open>runtime_FuncForPC\<close>: the name of the function \<^verbatim>\<open>runtime.FuncForPC(pc)\<close> finds,
    \<open>None\<close> when it returns nil.
\<close>

record frame =
  frame_pc :: nat
  frame_file :: string
  frame_line :: int

record world =
  logrus_defaults :: logrus_Logger
  os_OpenFile :: "string \<Rightarrow> error + nat"
  runtime_Caller :: "nat \<Rightarrow> frame option"
  runtime_FuncForPC :: "nat \<Rightarrow> string option"

section \<open>The sink builder\<close>

text \<open>\<^verbatim>\<open>logrus.New()\<close>: allocates a fresh engine instance and returns its address.\<close>

definition logrus_New :: "world \<Rightarrow> heap \<Rightarrow> addr \<times> heap" where
  "logrus_New w h = (length (engines h), h\<lparr>engines := engines h @ [logrus_defaults w]\<rparr>)"

text \<open>The engine's setters and getter, through a pointer.\<close>

definition logrus_SetLevel :: "addr \<Rightarrow> Level \<Rightarrow> heap \<Rightarrow> heap option" where
  "logrus_SetLevel a lv h =
     (case deref (engines h) a of
        None \<Rightarrow> None
      | Some e \<Rightarrow> Some (h\<lparr>engines := (engines h)[a := e\<lparr>level := lv\<rparr>]\<rparr>))"

definition logrus_GetLevel :: "addr \<Rightarrow> heap \<Rightarrow> Level option" where
  "logrus_GetLevel a h =
     (case deref (engines h) a of
        None \<Rightarrow> None
      | Some e \<Rightarrow> Some (level e))"

definition logrus_SetFormatter :: "addr \<Rightarrow> formatter \<Rightarrow> heap \<Rightarrow> heap option" where
  "logrus_SetFormatter a f h =
     (case deref (engines h) a of
        None \<Rightarrow> None
      | Some e \<Rightarrow> Some (h\<lparr>engines := (engines h)[a := e\<lparr>formatter := f\<rparr>]\<rparr>))"

definition logrus_SetOutput :: "addr \<Rightarrow> writer \<Rightarrow> heap \<Rightarrow> heap option" where
  "logrus_SetOutput a wr h =
     (case deref (engines h) a of
        None \<Rightarrow> None
      | Some e \<Rightarrow> Some (h\<lparr>engines := (engines h)[a := e\<lparr>out := wr\<rparr>]\<rparr>))"

text \<open>
  \<^verbatim>\<open>setupFormatter(logger, config)\<close>. The result is the returned error (\<open>None\<close> for nil)
  and the store; the outer \<open>None\<close> is a panic on a bad pointer. The switch has no
  default case: any other output type leaves the engine as it is. The field
  \<open>Format\<close> of the configuration is not read.
\<close>

definition setupFormatter :: "addr \<Rightarrow> Config \<Rightarrow> heap \<Rightarrow> (error option \<times> heap) option" where
  "setupFormatter lg config h =
     (if Output config = ConsoleOutput \<or> Output config = BothOutput then
        (case logrus_SetFormatter lg (TextFormatter True) h of
           None \<Rightarrow> None
         | Some h' \<Rightarrow> Some (None, h'))
      else if Output config = FileOutput then
        (case logrus_SetFormatter lg JSONFormatter h of
           None \<Rightarrow> None
         | Some h' \<Rightarrow> Some (None, h'))
      else Some (None, h))"

text \<open>
  The switch of \<^verbatim>\<open>setupOutput\<close>: the list of writers, or the error of the early return.
\<close>

definition selectWriters :: "world \<Rightarrow> Config \<Rightarrow> error + writer list" where
  "selectWriters w config =
     (if Output config = ConsoleOutput then Inr [os_Stdout]
      else if Output config = FileOutput then
        (if FilePath config = [] then
           Inl (errorString ''file path is required for file output'')
         else
           (case os_OpenFile w (FilePath config) of
              Inl err \<Rightarrow> Inl (fmt_Errorf_w ''failed to open log file: '' err)
            | Inr fd \<Rightarrow> Inr [os_File fd]))
      else if Output config = BothOutput then
        (if FilePath config \<noteq> [] then
           (case os_OpenFile w (FilePath config) of
              Inl err \<Rightarrow> Inl (fmt_Errorf_w ''failed to open log file: '' err)
            | Inr fd \<Rightarrow> Inr [os_Stdout, os_File fd])
         else Inr [os_Stdout])
      else Inl (errorString (''unsupported output type: '' @ Output config)))"

text \<open>
  \<^verbatim>\<open>setupOutput(logger, config)\<close>: the switch, then one writer is set directly and
  several are fanned out. \<^verbatim>\<open>writers[0]\<close> on an empty list would panic.
\<close>

definition setupOutput :: "world \<Rightarrow> addr \<Rightarrow> Config \<Rightarrow> heap \<Rightarrow> (error option \<times> heap) option" where
  "setupOutput w lg config h =
     (case selectWriters w config of
        Inl err \<Rightarrow> Some (Some err, h)
      | Inr writers \<Rightarrow>
          (if length writers > 1 then
             (case logrus_SetOutput lg (io_MultiWriter writers) h of
                None \<Rightarrow> None
              | Some h' \<Rightarrow> Some (None, h'))
           else
             (case writers of
                [] \<Rightarrow> None
              | wr # _ \<Rightarrow>
                  (case logrus_SetOutput lg wr h of
                     None \<Rightarrow> None
                   | Some h' \<Rightarrow> Some (None, h')))))"

text \<open>\<^verbatim>\<open>&Logger{...}\<close>: allocates a \<^verbatim>\<open>Logger\<close> struct and returns its address.\<close>

definition new_Logger :: "Logger \<Rightarrow> heap \<Rightarrow> addr \<times> heap" where
  "new_Logger L h = (length (handles h), h\<lparr>handles := handles h @ [L]\<rparr>)"

text \<open>
  \<^verbatim>\<open>New(config)\<close> returns the pair \<^verbatim>\<open>(*Logger, error)\<close>: each component is \<open>None\<close> for
  nil. The new \<^verbatim>\<open>Logger\<close> struct is allocated last, with the empty service name.
\<close>

definition New :: "world \<Rightarrow> Config \<Rightarrow> heap \<Rightarrow> ((addr option \<times> error option) \<times> heap) option" where
  "New w config h =
     (let (lg, h1) = logrus_New w h in
      (case logrus_SetLevel lg (Level config) h1 of
         None \<Rightarrow> None
       | Some h2 \<Rightarrow>
           (case setupFormatter lg config h2 of
              None \<Rightarrow> None
            | Some (Some err, h3) \<Rightarrow>
                Some ((None, Some (fmt_Errorf_w ''failed to setup formatter: '' err)), h3)
            | Some (None, h3) \<Rightarrow>
                (case setupOutput w lg config h3 of
                   None \<Rightarrow> None
                 | Some (Some err, h4) \<Rightarrow>
                     Some ((None, Some (fmt_Errorf_w ''failed to setup output: '' err)), h4)
                 | Some (None, h4) \<Rightarrow>
                     (let (l, h5) = new_Logger \<lparr>logger = lg, serviceName = []\<rparr> h4
                      in Some ((Some l, None), h5))))))"

section \<open>The contextual logger\<close>

subsection \<open>Library functions used to build the field \<^verbatim>\<open>file\<close>\<close>

text \<open>
  \<^verbatim>\<open>filepath.Base\<close> with the separator \<^verbatim>\<open>/\<close>: the empty path gives \<^verbatim>\<open>.\<close>; trailing
  separators are dropped; what follows the last separator is kept; a path of
  separators only gives \<^verbatim>\<open>/\<close>.
\<close>

definition filepath_Base :: "string \<Rightarrow> string" where
  "filepath_Base path =
     (if path = [] then ''.''
      else
        (let stripped = rev (dropWhile (\<lambda>c. c = CHR ''/'') (rev path));
             last_elem = rev (takeWhile (\<lambda>c. c \<noteq> CHR ''/'') (rev stripped))
         in if last_elem = [] then ''/'' else last_elem))"

text \<open>The verb \<^verbatim>\<open>%d\<close> of \<^verbatim>\<open>fmt.Sprintf\<close> on an \<^verbatim>\<open>int\<close>: decimal digits, with a sign when negative.\<close>

fun digits10 :: "nat \<Rightarrow> string" where
  "digits10 n =
     (if n < 10 then [''0123456789'' ! n]
      else digits10 (n div 10) @ [''0123456789'' ! (n mod 10)])"

declare digits10.simps [simp del]

definition fmt_d :: "int \<Rightarrow> string" where
  "fmt_d i = (if i < 0 then CHR ''-'' # digits10 (nat (- i)) else digits10 (nat i))"

subsection \<open>Entries\<close>

text \<open>
  \<^verbatim>\<open>interface{}\<close> values that travel in field maps and argument lists.
\<close>

datatype any =
    AnyString string
  | AnyInt int
  | AnyError error
  | AnyNil

text \<open>
  An entry of the engine: the engine instance it writes through and its field map.
  \<^verbatim>\<open>logger.WithFields(fields)\<close> on an engine instance makes an entry that carries
  exactly the given fields; it dereferences the instance.
\<close>

record Entry =
  entry_Logger :: addr
  Data :: "string \<rightharpoonup> any"

definition logrus_WithFields :: "addr \<Rightarrow> (string \<rightharpoonup> any) \<Rightarrow> heap \<Rightarrow> Entry option" where
  "logrus_WithFields a fs h =
     (case deref (engines h) a of
        None \<Rightarrow> None
      | Some _ \<Rightarrow> Some \<lparr>entry_Logger = a, Data = fs\<rparr>)"

text \<open>
  \<^verbatim>\<open>(l *Logger) withFields()\<close>: the base field set. \<open>service\<close> is always set;
  \<open>func\<close> and \<open>file\<close> only when \<^verbatim>\<open>runtime.Caller(2)\<close> reports a frame, and \<open>func\<close>
  only when the frame's function is found.
\<close>

definition withFields :: "world \<Rightarrow> addr \<Rightarrow> heap \<Rightarrow> Entry option" where
  "withFields w l h =
     (case deref (handles h) l of
        None \<Rightarrow> None
      | Some L \<Rightarrow>
          (let fields0 = [''service'' \<mapsto> AnyString (serviceName L)];
               fields1 =
                 (case runtime_Caller w 2 of
                    None \<Rightarrow> fields0
                  | Some fr \<Rightarrow>
                      (let fields' =
                             (case runtime_FuncForPC w (frame_pc fr) of
                                None \<Rightarrow> fields0
                              | Some fn \<Rightarrow> fields0(''func'' \<mapsto> AnyString fn))
                       in fields'(''file'' \<mapsto>
                            AnyString (filepath_Base (frame_file fr) @ '':'' @ fmt_d (frame_line fr)))))
           in logrus_WithFields (logger L) fields1 h))"

subsection \<open>Deriving loggers\<close>

text \<open>\<^verbatim>\<open>WithService(serviceName)\<close>: a new \<^verbatim>\<open>Logger\<close> struct on the receiver's engine.\<close>

definition WithService :: "addr \<Rightarrow> string \<Rightarrow> heap \<Rightarrow> (addr \<times> heap) option" where
  "WithService l name h =
     (case deref (handles h) l of
        None \<Rightarrow> None
      | Some L \<Rightarrow> Some (new_Logger \<lparr>logger = logger L, serviceName = name\<rparr> h))"

text \<open>\<^verbatim>\<open>WithGroup(group)\<close>: \<^verbatim>\<open>fmt.Sprintf("%s.%s", serviceName, group)\<close> joins with a dot.\<close>

definition WithGroup :: "addr \<Rightarrow> string \<Rightarrow> heap \<Rightarrow> (addr \<times> heap) option" where
  "WithGroup l grp h =
     (case deref (handles h) l of
        None \<Rightarrow> None
      | Some L \<Rightarrow>
          (let name = (if serviceName L \<noteq> [] then serviceName L @ ''.'' @ grp else grp)
           in Some (new_Logger \<lparr>logger = logger L, serviceName = name\<rparr> h)))"

subsection \<open>Level control\<close>

definition SetLevel :: "addr \<Rightarrow> Level \<Rightarrow> heap \<Rightarrow> heap option" where
  "SetLevel l lv h =
     (case deref (handles h) l of
        None \<Rightarrow> None
      | Some L \<Rightarrow> logrus_SetLevel (logger L) lv h)"

definition GetLevel :: "addr \<Rightarrow> heap \<Rightarrow> Level option" where
  "GetLevel l h =
     (case deref (handles h) l of
        None \<Rightarrow> None
      | Some L \<Rightarrow> logrus_GetLevel (logger L) h)"

subsection \<open>Logging methods\<close>

text \<open>
  Every public method builds the base entry with \<open>withFields\<close> and calls one method
  of the engine on it. The model stops at that call: the result of a method is the
  call it makes on the engine, with the entry it passes. \<^verbatim>\<open>entry.Debug(args...)\<close> is
  the engine's log call at level debug, and so on for the other levels;
  what the engine then does (filtering by level, formatting, writing, exiting after
  fatal, panicking after panic) is the engine's.
\<close>

datatype engine_call =
    Entry_Log Entry Level "any list"
  | Entry_Logf Entry Level string "any list"
  | Entry_WithField Entry string any
  | Entry_WithFields Entry "string \<rightharpoonup> any"
  | Entry_WithError Entry error

fun receiver :: "engine_call \<Rightarrow> Entry" where
  "receiver (Entry_Log e _ _) = e"
| "receiver (Entry_Logf e _ _ _) = e"
| "receiver (Entry_WithField e _ _) = e"
| "receiver (Entry_WithFields e _) = e"
| "receiver (Entry_WithError e _) = e"


definition Debug :: "world \<Rightarrow> addr \<Rightarrow> any list \<Rightarrow> heap \<Rightarrow> engine_call option" where
  "Debug w l args h = map_option (\<lambda>e. Entry_Log e DebugLevel args) (withFields w l h)"

definition Debugf :: "world \<Rightarrow> addr \<Rightarrow> string \<Rightarrow> any list \<Rightarrow> heap \<Rightarrow> engine_call option" where
  "Debugf w l fmt args h = map_option (\<lambda>e. Entry_Logf e DebugLevel fmt args) (withFields w l h)"

definition Info :: "world \<Rightarrow> addr \<Rightarrow> any list \<Rightarrow> heap \<Rightarrow> engine_call option" where
  "Info w l args h = map_option (\<lambda>e. Entry_Log e InfoLevel args) (withFields w l h)"

definition Infof :: "world \<Rightarrow> addr \<Rightarrow> string \<Rightarrow> any list \<Rightarrow> heap \<Rightarrow> engine_call option" where
  "Infof w l fmt args h = map_option (\<lambda>e. Entry_Logf e InfoLevel fmt args) (withFields w l h)"

definition Warn :: "world \<Rightarrow> addr \<Rightarrow> any list \<Rightarrow> heap \<Rightarrow> engine_call option" where
  "Warn w l args h = map_option (\<lambda>e. Entry_Log e WarnLevel args) (withFields w l h)"

definition Warnf :: "world \<Rightarrow> addr \<Rightarrow> string \<Rightarrow> any list \<Rightarrow> heap \<Rightarrow> engine_call option" where
  "Warnf w l fmt args h = map_option (\<lambda>e. Entry_Logf e WarnLevel fmt args) (withFields w l h)"

definition Error :: "world \<Rightarrow> addr \<Rightarrow> any list \<Rightarrow> heap \<Rightarrow> engine_call option" where
  "Error w l args h = map_option (\<lambda>e. Entry_Log e ErrorLevel args) (withFields w l h)"

definition Errorf :: "world \<Rightarrow> addr \<Rightarrow> string \<Rightarrow> any list \<Rightarrow> heap \<Rightarrow> engine_call option" where
  "Errorf w l fmt args h = map_option (\<lambda>e. Entry_Logf e ErrorLevel fmt args) (withFields w l h)"

definition Fatal :: "world \<Rightarrow> addr \<Rightarrow> any list \<Rightarrow> heap \<Rightarrow> engine_call option" where
  "Fatal w l args h = map_option (\<lambda>e. Entry_Log e FatalLevel args) (withFields w l h)"

definition Fatalf :: "world \<Rightarrow> addr \<Rightarrow> string \<Rightarrow> any list \<Rightarrow> heap \<Rightarrow> engine_call option" where
  "Fatalf w l fmt args h = map_option (\<lambda>e. Entry_Logf e FatalLevel fmt args) (withFields w l h)"

definition Panic :: "world \<Rightarrow> addr \<Rightarrow> any list \<Rightarrow> heap \<Rightarrow> engine_call option" where
  "Panic w l args h = map_option (\<lambda>e. Entry_Log e PanicLevel args) (withFields w l h)"

definition Panicf :: "world \<Rightarrow> addr \<Rightarrow> string \<Rightarrow> any list \<Rightarrow> heap \<Rightarrow> engine_call option" where
  "Panicf w l fmt args h = map_option (\<lambda>e. Entry_Logf e PanicLevel fmt args) (withFields w l h)"




section \<open>Notions used to state the properties\<close>

text \<open>The sink of a logger: the engine instance its \<^verbatim>\<open>Logger\<close> struct points to.\<close>

definition sink :: "heap \<Rightarrow> addr \<Rightarrow> logrus_Logger option" where
  "sink h l =
     (case deref (handles h) l of
        None \<Rightarrow> None
      | Some L \<Rightarrow> deref (engines h) (logger L))"

text \<open>Two loggers share a sink: both are allocated and point to one allocated engine.\<close>

definition sameSink :: "heap \<Rightarrow> addr \<Rightarrow> addr \<Rightarrow> bool" where
  "sameSink h l1 l2 =
     (case (deref (handles h) l1, deref (handles h) l2) of
        (Some L1, Some L2) \<Rightarrow> logger L1 = logger L2 \<and> logger L1 < length (engines h)
      | _ \<Rightarrow> False)"

text \<open>
  The engine state that \<open>New\<close> has built when it reaches \<^verbatim>\<open>setupOutput\<close>: the fresh
  instance with the configured level and the formatter chosen by \<open>setupFormatter\<close>.
\<close>

definition builtEngine :: "world \<Rightarrow> Config \<Rightarrow> logrus_Logger" where
  "builtEngine w config =
     (let e0 = (logrus_defaults w)\<lparr>level := Level config\<rparr>
      in if Output config = ConsoleOutput \<or> Output config = BothOutput
         then e0\<lparr>formatter := TextFormatter True\<rparr>
         else if Output config = FileOutput then e0\<lparr>formatter := JSONFormatter\<rparr>
         else e0)"

subsection \<open>Concrete inputs\<close>

text \<open>
  A world in which the engine starts with its documented defaults, the path
  \<^verbatim>\<open>logs/app.log\<close> can be opened and no other path can, and the call site is line 21 of
  \<^verbatim>\<open>/src/app/main.go\<close> in \<^verbatim>\<open>main.main\<close>; the same world with no caller frame; and the
  empty store.
\<close>

definition exampleWorld :: world where
  "exampleWorld =
     \<lparr>logrus_defaults = \<lparr>out = os_Stderr, formatter = TextFormatter False, level = InfoLevel\<rparr>,
      os_OpenFile = (\<lambda>p. if p = ''logs/app.log'' then Inr 3
                          else Inl (PathError (''open '' @ p @ '': no such file or directory''))),
      runtime_Caller = (\<lambda>skip. if skip = 2
                          then Some \<lparr>frame_pc = 4198400, frame_file = ''/src/app/main.go'', frame_line = 21\<rparr>
                          else None),
      runtime_FuncForPC = (\<lambda>p. if p = 4198400 then Some ''main.main'' else None)\<rparr>"

definition frameless :: "world \<Rightarrow> world" where
  "frameless w = w\<lparr>runtime_Caller := (\<lambda>skip. None)\<rparr>"

definition emptyHeap :: heap where
  "emptyHeap = \<lparr>engines = [], handles = []\<rparr>"

text \<open>
  The store after \<open>New\<close> has built a console logger on the empty store: one engine and
  the root logger at address 0.
\<close>

definition rootHeap :: heap where
  "rootHeap =
     \<lparr>engines = [\<lparr>out = os_Stdout, formatter = TextFormatter True, level = InfoLevel\<rparr>],
      handles = [\<lparr>logger = 0, serviceName = []\<rparr>]\<rparr>"


definition testConfig :: "OutputType \<Rightarrow> string \<Rightarrow> string \<Rightarrow> Config" where
  "testConfig outp path fmt = \<lparr>Level = InfoLevel, Output = outp, FilePath = path, Format = fmt\<rparr>"

section \<open>Lemmas about the store and the builder\<close>

lemmas output_consts = ConsoleOutput_def FileOutput_def BothOutput_def

lemma deref_append_new: "deref (xs @ [x]) (length xs) = Some x"
  by (simp add: deref_def)

lemma deref_Some_iff: "deref xs a = Some x \<longleftrightarrow> a < length xs \<and> xs ! a = x"
  by (auto simp: deref_def)

lemma setupFormatter_valid:
  assumes "a < length (engines h)"
  shows "setupFormatter a config h =
     Some (None,
       if Output config = ConsoleOutput \<or> Output config = BothOutput
       then h\<lparr>engines := (engines h)[a := (engines h ! a)\<lparr>formatter := TextFormatter True\<rparr>]\<rparr>
       else if Output config = FileOutput
       then h\<lparr>engines := (engines h)[a := (engines h ! a)\<lparr>formatter := JSONFormatter\<rparr>]\<rparr>
       else h)"
  using assms by (simp add: setupFormatter_def logrus_SetFormatter_def deref_def)

lemma setupOutput_valid:
  assumes "a < length (engines h)"
  shows "setupOutput w a config h =
     (case selectWriters w config of
        Inl err \<Rightarrow> Some (Some err, h)
      | Inr [] \<Rightarrow> None
      | Inr [wr] \<Rightarrow> Some (None, h\<lparr>engines := (engines h)[a := (engines h ! a)\<lparr>out := wr\<rparr>]\<rparr>)
      | Inr ws \<Rightarrow>
          Some (None, h\<lparr>engines := (engines h)[a := (engines h ! a)\<lparr>out := io_MultiWriter ws\<rparr>]\<rparr>))"
  using assms
  by (simp add: setupOutput_def logrus_SetOutput_def deref_def split: sum.splits list.splits)

lemma selectWriters_cases:
  "selectWriters w config = Inr ws \<Longrightarrow>
     ws = [os_Stdout] \<or> (\<exists>fd. ws = [os_File fd]) \<or> (\<exists>fd. ws = [os_Stdout, os_File fd])"
  by (auto simp: selectWriters_def split: sum.splits if_splits)

text \<open>
  \<open>New\<close> in closed form. It never panics: it fails exactly when the switch of
  \<^verbatim>\<open>setupOutput\<close> returns an error, and then no \<^verbatim>\<open>Logger\<close> struct is allocated.
\<close>

lemma New_eq:
  "New w config h =
     (case selectWriters w config of
        Inl err \<Rightarrow>
          Some ((None, Some (fmt_Errorf_w ''failed to setup output: '' err)),
                h\<lparr>engines := engines h @ [builtEngine w config]\<rparr>)
      | Inr ws \<Rightarrow>
          Some ((Some (length (handles h)), None),
                h\<lparr>engines := engines h @
                     [(builtEngine w config)
                        \<lparr>out := (if length ws > 1 then io_MultiWriter ws else hd ws)\<rparr>],
                  handles := handles h @ [\<lparr>logger = length (engines h), serviceName = []\<rparr>]\<rparr>))"
proof (cases "selectWriters w config")
  case (Inl err)
  then show ?thesis
    by (simp add: New_def logrus_New_def logrus_SetLevel_def deref_append_new
        setupFormatter_valid setupOutput_valid builtEngine_def)
next
  case (Inr ws)
  with selectWriters_cases[OF Inr] show ?thesis
    by (auto simp: New_def logrus_New_def logrus_SetLevel_def deref_append_new
        setupFormatter_valid setupOutput_valid builtEngine_def new_Logger_def)
qed

lemma selectWriters_file_nopath:
  "Output config = FileOutput \<Longrightarrow> FilePath config = [] \<Longrightarrow>
   selectWriters w config = Inl (errorString ''file path is required for file output'')"
  by (simp add: selectWriters_def output_consts)

lemma selectWriters_unsupported:
  "Output config \<noteq> ConsoleOutput \<Longrightarrow> Output config \<noteq> FileOutput \<Longrightarrow>
   Output config \<noteq> BothOutput \<Longrightarrow>
   selectWriters w config = Inl (errorString (''unsupported output type: '' @ Output config))"
  by (simp add: selectWriters_def)

lemma New_error_nil: "New w config h = Some ((r, Some e), h') \<Longrightarrow> r = None"
  by (auto simp: New_eq split: sum.splits)

lemma New_success:
  assumes "New w config h = Some ((Some l, None), h')"
  shows "\<exists>ws. selectWriters w config = Inr ws
           \<and> l = length (handles h)
           \<and> sink h' l = Some ((builtEngine w config)
                \<lparr>out := (if length ws > 1 then io_MultiWriter ws else hd ws)\<rparr>)
           \<and> deref (handles h') l = Some \<lparr>logger = length (engines h), serviceName = []\<rparr>"
  using assms
  by (auto simp: New_eq sink_def deref_append_new split: sum.splits)

lemma selectWriters_Inr_output:
  "selectWriters w config = Inr ws \<Longrightarrow>
     Output config = ConsoleOutput \<or> Output config = FileOutput \<or> Output config = BothOutput"
  by (auto simp: selectWriters_def split: if_splits)

lemma level_builtEngine: "level (builtEngine w config) = Level config"
  by (simp add: builtEngine_def Let_def)

lemma selectWriters_ignores_Format:
  "selectWriters w (config\<lparr>Format := f\<rparr>) = selectWriters w config"
  by (simp add: selectWriters_def)

lemma builtEngine_ignores_Format:
  "builtEngine w (config\<lparr>Format := f\<rparr>) = builtEngine w config"
  by (simp add: builtEngine_def Let_def)

lemma New_ignores_Format: "New w (config\<lparr>Format := f\<rparr>) h = New w config h"
  unfolding New_eq selectWriters_ignores_Format builtEngine_ignores_Format ..

lemma setupFormatter_no_error: "setupFormatter a config h \<noteq> Some (Some e, h')"
  by (auto simp: setupFormatter_def split: option.splits)

lemma fmt_Errorf_w_prefixes_differ:
  "fmt_Errorf_w ''failed to setup output: '' err
     \<noteq> fmt_Errorf_w ''failed to setup formatter: '' err'"
  by (simp add: fmt_Errorf_w_def)

section \<open>Properties of the sink builder\<close>

text \<open>
  Claim C1. \<open>New\<close> with output \<^verbatim>\<open>file\<close> and an empty file path fails with the
  configuration error "file path is required for file output", and with an output
  other than \<^verbatim>\<open>console\<close>, \<^verbatim>\<open>file\<close> and \<^verbatim>\<open>both\<close> it fails with the configuration error
  "unsupported output type: ...", each wrapped as "failed to setup output: ...". This
  holds in every world and on every store. In both cases the returned logger is nil and
  no \<^verbatim>\<open>Logger\<close> struct has been allocated; and whenever \<open>New\<close> returns an error at all,
  the returned logger is nil.
\<close>

theorem C1_New_configuration_errors:
  "(Output config = FileOutput \<and> FilePath config = [] \<longrightarrow>
      (\<exists>h'. New w config h =
         Some ((None, Some (fmt_Errorf_w ''failed to setup output: ''
                              (errorString ''file path is required for file output''))), h')
           \<and> handles h' = handles h)
      \<and> ConfigurationError (fmt_Errorf_w ''failed to setup output: ''
                              (errorString ''file path is required for file output'')))
   \<and> (Output config \<noteq> ConsoleOutput \<and> Output config \<noteq> FileOutput
        \<and> Output config \<noteq> BothOutput \<longrightarrow>
      (\<exists>h'. New w config h =
         Some ((None, Some (fmt_Errorf_w ''failed to setup output: ''
                              (errorString (''unsupported output type: '' @ Output config)))), h')
           \<and> handles h' = handles h)
      \<and> ConfigurationError (fmt_Errorf_w ''failed to setup output: ''
                              (errorString (''unsupported output type: '' @ Output config))))
   \<and> (\<forall>r e h'. New w config h = Some ((r, Some e), h') \<longrightarrow> r = None)"
proof (intro conjI impI allI)
  assume "Output config = FileOutput \<and> FilePath config = []"
  then show "\<exists>h'. New w config h =
         Some ((None, Some (fmt_Errorf_w ''failed to setup output: ''
                              (errorString ''file path is required for file output''))), h')
           \<and> handles h' = handles h"
    by (simp add: New_eq selectWriters_file_nopath)
next
  show "ConfigurationError (fmt_Errorf_w ''failed to setup output: ''
                              (errorString ''file path is required for file output''))"
    by (simp add: ConfigurationError_def fmt_Errorf_w_def)
next
  assume "Output config \<noteq> ConsoleOutput \<and> Output config \<noteq> FileOutput
            \<and> Output config \<noteq> BothOutput"
  then show "\<exists>h'. New w config h =
         Some ((None, Some (fmt_Errorf_w ''failed to setup output: ''
                              (errorString (''unsupported output type: '' @ Output config)))), h')
           \<and> handles h' = handles h"
    by (simp add: New_eq selectWriters_unsupported)
next
  show "ConfigurationError (fmt_Errorf_w ''failed to setup output: ''
                              (errorString (''unsupported output type: '' @ Output config)))"
    by (simp add: ConfigurationError_def fmt_Errorf_w_def)
next
  fix r e h' assume "New w config h = Some ((r, Some e), h')"
  then show "r = None" by (rule New_error_nil)
qed

text \<open>
  The two failing configurations of the package's test: \<^verbatim>\<open>file\<close> without a path, and the
  output type \<^verbatim>\<open>invalid\<close>.
\<close>

theorem C1_New_configuration_errors_witness:
  "New exampleWorld (testConfig FileOutput [] ''text'') emptyHeap =
     Some ((None, Some (wrapError ''failed to setup output: file path is required for file output''
                          (errorString ''file path is required for file output''))),
           \<lparr>engines = [\<lparr>out = os_Stderr, formatter = JSONFormatter, level = InfoLevel\<rparr>],
            handles = []\<rparr>)
   \<and> New exampleWorld (testConfig ''invalid'' [] ''text'') emptyHeap =
     Some ((None, Some (wrapError ''failed to setup output: unsupported output type: invalid''
                          (errorString ''unsupported output type: invalid''))),
           \<lparr>engines = [\<lparr>out = os_Stderr, formatter = TextFormatter False, level = InfoLevel\<rparr>],
            handles = []\<rparr>)"
  using C1_New_configuration_errors [of "testConfig FileOutput [] ''text''" exampleWorld emptyHeap]
        C1_New_configuration_errors [of "testConfig ''invalid'' [] ''text''" exampleWorld emptyHeap]
  by (simp add: testConfig_def output_consts fmt_Errorf_w_def New_eq selectWriters_def
      builtEngine_def exampleWorld_def emptyHeap_def)

text \<open>
  Claim C2, as stated, fails: the field \<open>Format\<close> is not honoured for file output.
  The configuration of the package's file test (output \<^verbatim>\<open>file\<close>, a path that opens,
  format \<^verbatim>\<open>text\<close>) builds a sink with the JSON formatter, the same sink as with format
  \<^verbatim>\<open>json\<close>.
\<close>

theorem C2_format_honoured_counterexample:
  "Format (testConfig FileOutput ''logs/app.log'' ''text'') = ''text''
   \<and> New exampleWorld (testConfig FileOutput ''logs/app.log'' ''text'') emptyHeap =
     Some ((Some 0, None),
           \<lparr>engines = [\<lparr>out = os_File 3, formatter = JSONFormatter, level = InfoLevel\<rparr>],
            handles = [\<lparr>logger = 0, serviceName = []\<rparr>]\<rparr>)
   \<and> sink \<lparr>engines = [\<lparr>out = os_File 3, formatter = JSONFormatter, level = InfoLevel\<rparr>],
            handles = [\<lparr>logger = 0, serviceName = []\<rparr>]\<rparr> 0 =
       Some \<lparr>out = os_File 3, formatter = JSONFormatter, level = InfoLevel\<rparr>
   \<and> New exampleWorld (testConfig FileOutput ''logs/app.log'' ''json'') emptyHeap =
     New exampleWorld (testConfig FileOutput ''logs/app.log'' ''text'') emptyHeap"
  by (simp add: testConfig_def output_consts New_eq selectWriters_def
      builtEngine_def exampleWorld_def emptyHeap_def sink_def deref_def)

text \<open>
  Claim C2, amended. \<open>New\<close> does not read the field \<open>Format\<close>: changing it changes
  nothing in the result, for any output. For output \<^verbatim>\<open>file\<close> with a non-empty path that
  opens, \<open>New\<close> succeeds and the sink's formatter is the JSON formatter, whatever
  \<open>Format\<close> holds.
\<close>

theorem C2_format_not_read:
  "New w (config\<lparr>Format := f\<rparr>) h = New w config h
   \<and> (Output config = FileOutput \<and> FilePath config \<noteq> [] \<longrightarrow>
        (\<forall>fd. os_OpenFile w (FilePath config) = Inr fd \<longrightarrow>
           (\<exists>l h' e. New w config h = Some ((Some l, None), h')
              \<and> sink h' l = Some e \<and> formatter e = JSONFormatter)))"
proof (intro conjI impI allI)
  show "New w (config\<lparr>Format := f\<rparr>) h = New w config h"
    by (rule New_ignores_Format)
next
  fix fd
  assume c: "Output config = FileOutput \<and> FilePath config \<noteq> []"
    and o: "os_OpenFile w (FilePath config) = Inr fd"
  then have sw: "selectWriters w config = Inr [os_File fd]"
    by (simp add: selectWriters_def output_consts)
  from c have "formatter (builtEngine w config) = JSONFormatter"
    by (simp add: builtEngine_def Let_def output_consts)
  then show "\<exists>l h' e. New w config h = Some ((Some l, None), h')
              \<and> sink h' l = Some e \<and> formatter e = JSONFormatter"
    by (simp add: New_eq sw sink_def deref_append_new)
qed

theorem C2_format_not_read_witness:
  "New exampleWorld (testConfig FileOutput ''logs/app.log'' ''text'' \<lparr>Format := ''json''\<rparr>) emptyHeap =
     New exampleWorld (testConfig FileOutput ''logs/app.log'' ''text'') emptyHeap
   \<and> (\<exists>l h' e. New exampleWorld (testConfig FileOutput ''logs/app.log'' ''text'') emptyHeap =
                   Some ((Some l, None), h')
              \<and> sink h' l = Some e \<and> formatter e = JSONFormatter)"
  using C2_format_not_read [where w = exampleWorld and h = emptyHeap and f = "''json''"
          and config = "testConfig FileOutput ''logs/app.log'' ''text''"]
  by (simp add: testConfig_def output_consts exampleWorld_def)

text \<open>
  Claim C3. Whenever \<open>New\<close> accepts a configuration, the output is one of \<^verbatim>\<open>console\<close>,
  \<^verbatim>\<open>both\<close> and \<^verbatim>\<open>file\<close>, and the formatter of the resulting sink is the text formatter
  with full timestamps for \<^verbatim>\<open>console\<close> and \<^verbatim>\<open>both\<close>, and the JSON formatter for
  \<^verbatim>\<open>file\<close>.
\<close>

theorem C3_formatter_selection:
  assumes "New w config h = Some ((Some l, None), h')"
  shows "\<exists>e. sink h' l = Some e
           \<and> (Output config = ConsoleOutput \<or> Output config = BothOutput
                \<longrightarrow> formatter e = TextFormatter True)
           \<and> (Output config = FileOutput \<longrightarrow> formatter e = JSONFormatter)
           \<and> (Output config = ConsoleOutput \<or> Output config = BothOutput
                \<or> Output config = FileOutput)"
proof -
  from New_success[OF assms] obtain ws where
    ws: "selectWriters w config = Inr ws" and
    s: "sink h' l = Some ((builtEngine w config)
                \<lparr>out := (if length ws > 1 then io_MultiWriter ws else hd ws)\<rparr>)"
    by blast
  from selectWriters_Inr_output[OF ws] s show ?thesis
    by (auto simp: builtEngine_def output_consts)
qed

text \<open>The console configuration with format \<^verbatim>\<open>json\<close> of the package's test, and a file configuration.\<close>

theorem C3_formatter_selection_witness:
  "New exampleWorld (testConfig ConsoleOutput [] ''json'') emptyHeap =
     Some ((Some 0, None),
           \<lparr>engines = [\<lparr>out = os_Stdout, formatter = TextFormatter True, level = InfoLevel\<rparr>],
            handles = [\<lparr>logger = 0, serviceName = []\<rparr>]\<rparr>)
   \<and> (\<exists>e. sink \<lparr>engines = [\<lparr>out = os_Stdout, formatter = TextFormatter True, level = InfoLevel\<rparr>],
                  handles = [\<lparr>logger = 0, serviceName = []\<rparr>]\<rparr> 0 = Some e
          \<and> formatter e = TextFormatter True)
   \<and> New exampleWorld (testConfig FileOutput ''logs/app.log'' ''json'') emptyHeap =
     Some ((Some 0, None),
           \<lparr>engines = [\<lparr>out = os_File 3, formatter = JSONFormatter, level = InfoLevel\<rparr>],
            handles = [\<lparr>logger = 0, serviceName = []\<rparr>]\<rparr>)
   \<and> (\<exists>e. sink \<lparr>engines = [\<lparr>out = os_File 3, formatter = JSONFormatter, level = InfoLevel\<rparr>],
                  handles = [\<lparr>logger = 0, serviceName = []\<rparr>]\<rparr> 0 = Some e
          \<and> formatter e = JSONFormatter)"
proof -
  have c: "New exampleWorld (testConfig ConsoleOutput [] ''json'') emptyHeap =
     Some ((Some 0, None),
           \<lparr>engines = [\<lparr>out = os_Stdout, formatter = TextFormatter True, level = InfoLevel\<rparr>],
            handles = [\<lparr>logger = 0, serviceName = []\<rparr>]\<rparr>)"
    by (simp add: testConfig_def output_consts New_eq selectWriters_def
        builtEngine_def exampleWorld_def emptyHeap_def)
  have f: "New exampleWorld (testConfig FileOutput ''logs/app.log'' ''json'') emptyHeap =
     Some ((Some 0, None),
           \<lparr>engines = [\<lparr>out = os_File 3, formatter = JSONFormatter, level = InfoLevel\<rparr>],
            handles = [\<lparr>logger = 0, serviceName = []\<rparr>]\<rparr>)"
    by (simp add: testConfig_def output_consts New_eq selectWriters_def
        builtEngine_def exampleWorld_def emptyHeap_def)
  from C3_formatter_selection[OF c] C3_formatter_selection[OF f] c f show ?thesis
    by (auto simp: testConfig_def output_consts)
qed

text \<open>
  Claim C6. With output \<^verbatim>\<open>both\<close>: if the file path is empty, \<open>New\<close> succeeds and the
  sink writes to standard output alone; if the path is non-empty and the file opens,
  \<open>New\<close> succeeds and the sink fans out to standard output and the file. (If the file
  does not open, \<open>New\<close> returns the wrapped error of the open call.)
\<close>

theorem C6_both_output:
  assumes "Output config = BothOutput"
  shows "(FilePath config = [] \<longrightarrow>
            (\<exists>l h' e. New w config h = Some ((Some l, None), h')
                \<and> sink h' l = Some e \<and> out e = os_Stdout))
       \<and> (FilePath config \<noteq> [] \<longrightarrow>
            (\<forall>fd. os_OpenFile w (FilePath config) = Inr fd \<longrightarrow>
               (\<exists>l h' e. New w config h = Some ((Some l, None), h')
                  \<and> sink h' l = Some e \<and> out e = io_MultiWriter [os_Stdout, os_File fd]))
          \<and> (\<forall>err. os_OpenFile w (FilePath config) = Inl err \<longrightarrow>
               (\<exists>h'. New w config h =
                  Some ((None, Some (fmt_Errorf_w ''failed to setup output: ''
                                      (fmt_Errorf_w ''failed to open log file: '' err))), h'))))"
  using assms
  by (auto simp: New_eq selectWriters_def output_consts sink_def deref_append_new)

theorem C6_both_output_witness:
  "New exampleWorld (testConfig BothOutput [] ''text'') emptyHeap =
     Some ((Some 0, None),
           \<lparr>engines = [\<lparr>out = os_Stdout, formatter = TextFormatter True, level = InfoLevel\<rparr>],
            handles = [\<lparr>logger = 0, serviceName = []\<rparr>]\<rparr>)
   \<and> New exampleWorld (testConfig BothOutput ''logs/app.log'' ''text'') emptyHeap =
     Some ((Some 0, None),
           \<lparr>engines = [\<lparr>out = io_MultiWriter [os_Stdout, os_File 3],
                        formatter = TextFormatter True, level = InfoLevel\<rparr>],
            handles = [\<lparr>logger = 0, serviceName = []\<rparr>]\<rparr>)
   \<and> New exampleWorld (testConfig BothOutput ''/nodir/app.log'' ''text'') emptyHeap =
     Some ((None, Some (wrapError ''failed to setup output: failed to open log file: open /nodir/app.log: no such file or directory''
                         (wrapError ''failed to open log file: open /nodir/app.log: no such file or directory''
                            (PathError ''open /nodir/app.log: no such file or directory'')))),
           \<lparr>engines = [\<lparr>out = os_Stderr, formatter = TextFormatter True, level = InfoLevel\<rparr>],
            handles = []\<rparr>)"
  using C6_both_output [of "testConfig BothOutput [] ''text''" exampleWorld emptyHeap]
        C6_both_output [of "testConfig BothOutput ''logs/app.log'' ''text''" exampleWorld emptyHeap]
        C6_both_output [of "testConfig BothOutput ''/nodir/app.log'' ''text''" exampleWorld emptyHeap]
  by (simp add: testConfig_def output_consts fmt_Errorf_w_def New_eq selectWriters_def
      builtEngine_def exampleWorld_def emptyHeap_def)

text \<open>
  Claim C7. Whenever \<open>New\<close> accepts a configuration, \<open>GetLevel\<close> on the returned logger
  gives the field \<open>Level\<close> of the configuration, for every 32-bit value of it.
\<close>

theorem C7_level_from_config:
  assumes "New w config h = Some ((Some l, None), h')"
  shows "GetLevel l h' = Some (Level config)"
proof -
  from New_success[OF assms] obtain ws where
    s: "sink h' l = Some ((builtEngine w config)
                \<lparr>out := (if length ws > 1 then io_MultiWriter ws else hd ws)\<rparr>)"
    by blast
  then show ?thesis
    by (auto simp: GetLevel_def logrus_GetLevel_def sink_def level_builtEngine
        split: option.splits)
qed

theorem C7_level_from_config_witness:
  "New exampleWorld (testConfig ConsoleOutput [] ''text'' \<lparr>Level := DebugLevel\<rparr>) emptyHeap =
     Some ((Some 0, None),
           \<lparr>engines = [\<lparr>out = os_Stdout, formatter = TextFormatter True, level = DebugLevel\<rparr>],
            handles = [\<lparr>logger = 0, serviceName = []\<rparr>]\<rparr>)
   \<and> GetLevel 0 \<lparr>engines = [\<lparr>out = os_Stdout, formatter = TextFormatter True, level = DebugLevel\<rparr>],
                 handles = [\<lparr>logger = 0, serviceName = []\<rparr>]\<rparr> = Some DebugLevel"
proof -
  have n: "New exampleWorld (testConfig ConsoleOutput [] ''text'' \<lparr>Level := DebugLevel\<rparr>) emptyHeap =
     Some ((Some 0, None),
           \<lparr>engines = [\<lparr>out = os_Stdout, formatter = TextFormatter True, level = DebugLevel\<rparr>],
            handles = [\<lparr>logger = 0, serviceName = []\<rparr>]\<rparr>)"
    by (simp add: testConfig_def output_consts New_eq selectWriters_def
        builtEngine_def exampleWorld_def emptyHeap_def)
  from C7_level_from_config[OF n] n show ?thesis
    by (simp add: testConfig_def)
qed

text \<open>
  Claim C9. \<open>setupFormatter\<close> never returns an error, whatever the configuration, the
  pointer and the store, and on an allocated engine it returns nil. So whenever \<open>New\<close>
  returns an error, that error is the one \<open>setupOutput\<close> returned, wrapped as "failed to
  setup output: ...", and it is never a "failed to setup formatter: ..." error.
\<close>

theorem C9_only_setupOutput_fails:
  "(\<forall>e h'. setupFormatter a config h \<noteq> Some (Some e, h'))
   \<and> (a < length (engines h) \<longrightarrow> (\<exists>h'. setupFormatter a config h = Some (None, h')))
   \<and> (\<forall>r e h'. New w config h = Some ((r, Some e), h') \<longrightarrow>
         (\<exists>err. setupOutput w (length (engines h)) config
                   (h\<lparr>engines := engines h @ [builtEngine w config]\<rparr>) = Some (Some err, h')
               \<and> e = fmt_Errorf_w ''failed to setup output: '' err)
         \<and> (\<forall>err'. e \<noteq> fmt_Errorf_w ''failed to setup formatter: '' err'))"
proof (intro conjI allI impI)
  fix e h' show "setupFormatter a config h \<noteq> Some (Some e, h')"
    by (rule setupFormatter_no_error)
next
  assume "a < length (engines h)"
  then show "\<exists>h'. setupFormatter a config h = Some (None, h')"
    by (simp add: setupFormatter_valid)
next
  fix r e h' assume n: "New w config h = Some ((r, Some e), h')"
  then obtain err where err: "selectWriters w config = Inl err"
    and e: "e = fmt_Errorf_w ''failed to setup output: '' err"
    and h': "h' = h\<lparr>engines := engines h @ [builtEngine w config]\<rparr>"
    by (auto simp: New_eq split: sum.splits)
  have "setupOutput w (length (engines h)) config
          (h\<lparr>engines := engines h @ [builtEngine w config]\<rparr>) = Some (Some err, h')"
    by (simp add: setupOutput_def err h')
  with e show "\<exists>err. setupOutput w (length (engines h)) config
                   (h\<lparr>engines := engines h @ [builtEngine w config]\<rparr>) = Some (Some err, h')
               \<and> e = fmt_Errorf_w ''failed to setup output: '' err"
    by blast
  fix err' show "e \<noteq> fmt_Errorf_w ''failed to setup formatter: '' err'"
    unfolding e by (rule fmt_Errorf_w_prefixes_differ)
qed

theorem C9_only_setupOutput_fails_witness:
  "setupFormatter 0 (testConfig ''invalid'' [] ''text'')
      \<lparr>engines = [\<lparr>out = os_Stderr, formatter = TextFormatter False, level = InfoLevel\<rparr>],
       handles = []\<rparr>
    = Some (None, \<lparr>engines = [\<lparr>out = os_Stderr, formatter = TextFormatter False, level = InfoLevel\<rparr>],
                   handles = []\<rparr>)
   \<and> New exampleWorld (testConfig ''invalid'' [] ''text'') emptyHeap =
     Some ((None, Some (fmt_Errorf_w ''failed to setup output: ''
                          (errorString ''unsupported output type: invalid''))),
           \<lparr>engines = [\<lparr>out = os_Stderr, formatter = TextFormatter False, level = InfoLevel\<rparr>],
            handles = []\<rparr>)
   \<and> setupOutput exampleWorld 0 (testConfig ''invalid'' [] ''text'')
        \<lparr>engines = [\<lparr>out = os_Stderr, formatter = TextFormatter False, level = InfoLevel\<rparr>],
         handles = []\<rparr>
      = Some (Some (errorString ''unsupported output type: invalid''),
           \<lparr>engines = [\<lparr>out = os_Stderr, formatter = TextFormatter False, level = InfoLevel\<rparr>],
            handles = []\<rparr>)"
  using C9_only_setupOutput_fails [of 0 "testConfig ''invalid'' [] ''text''"
          "\<lparr>engines = [\<lparr>out = os_Stderr, formatter = TextFormatter False, level = InfoLevel\<rparr>],
            handles = []\<rparr>" exampleWorld]
        C9_only_setupOutput_fails [of 0 "testConfig ''invalid'' [] ''text''" emptyHeap exampleWorld]
  by (simp add: testConfig_def output_consts New_eq selectWriters_def setupFormatter_def
      setupOutput_def builtEngine_def exampleWorld_def emptyHeap_def)

section \<open>Lemmas about the contextual logger\<close>

lemma WithService_eq:
  "deref (handles h) l = Some L \<Longrightarrow>
   WithService l s h =
     Some (length (handles h), h\<lparr>handles := handles h @ [\<lparr>logger = logger L, serviceName = s\<rparr>]\<rparr>)"
  by (simp add: WithService_def new_Logger_def)

lemma WithGroup_eq:
  "deref (handles h) l = Some L \<Longrightarrow>
   WithGroup l g h =
     Some (length (handles h),
           h\<lparr>handles := handles h @
              [\<lparr>logger = logger L,
                serviceName = (if serviceName L \<noteq> [] then serviceName L @ ''.'' @ g else g)\<rparr>]\<rparr>)"
  by (simp add: WithGroup_def new_Logger_def)

lemma sameSink_iff:
  "sameSink h l1 l2 \<longleftrightarrow>
     (\<exists>L1 L2. deref (handles h) l1 = Some L1 \<and> deref (handles h) l2 = Some L2
        \<and> logger L1 = logger L2 \<and> logger L1 < length (engines h))"
  by (auto simp: sameSink_def split: option.splits)

lemma SetLevel_GetLevel:
  assumes "deref (handles h) l1 = Some L1" "deref (handles h) l2 = Some L2"
    "logger L1 = logger L2" "logger L1 < length (engines h)"
  shows "\<exists>h'. SetLevel l1 X h = Some h' \<and> GetLevel l1 h' = Some X \<and> GetLevel l2 h' = Some X"
proof -
  from assms have v: "l1 < length (handles h)" "handles h ! l1 = L1"
    "l2 < length (handles h)" "handles h ! l2 = L2"
    by (simp_all add: deref_Some_iff)
  with assms(3,4) show ?thesis
    by (simp add: SetLevel_def GetLevel_def logrus_SetLevel_def logrus_GetLevel_def deref_def)
qed

lemma WithService_sameSink:
  assumes "sink h l = Some e" "WithService l s h = Some (l', h')"
  shows "sameSink h' l l' \<and> sameSink h' l' l"
  using assms
  by (auto simp: sink_def WithService_def new_Logger_def sameSink_def deref_def nth_append
      split: option.splits if_splits)

lemma WithGroup_sameSink:
  assumes "sink h l = Some e" "WithGroup l g h = Some (l', h')"
  shows "sameSink h' l l' \<and> sameSink h' l' l"
  using assms
  by (auto simp: sink_def WithGroup_def new_Logger_def sameSink_def deref_def nth_append Let_def
      split: option.splits if_splits)

lemma sameSink_trans: "sameSink h a b \<Longrightarrow> sameSink h b c \<Longrightarrow> sameSink h a c"
  by (auto simp: sameSink_iff)

lemma sameSink_sym: "sameSink h a b \<Longrightarrow> sameSink h b a"
  by (auto simp: sameSink_iff)

lemmas log_method_defs =
  Debug_def Debugf_def Info_def Infof_def Warn_def Warnf_def Error_def Errorf_def
  Fatal_def Fatalf_def Panic_def Panicf_def


lemma withFields_valid:
  assumes "deref (handles h) l = Some L" "logger L < length (engines h)"
  shows "withFields w l h =
     Some \<lparr>entry_Logger = logger L,
           Data = (case runtime_Caller w 2 of
                     None \<Rightarrow> [''service'' \<mapsto> AnyString (serviceName L)]
                   | Some fr \<Rightarrow>
                       (case runtime_FuncForPC w (frame_pc fr) of
                          None \<Rightarrow> [''service'' \<mapsto> AnyString (serviceName L)]
                        | Some fn \<Rightarrow> [''service'' \<mapsto> AnyString (serviceName L), ''func'' \<mapsto> AnyString fn])
                       (''file'' \<mapsto> AnyString (filepath_Base (frame_file fr) @ '':'' @ fmt_d (frame_line fr))))\<rparr>"
  using assms
  by (simp add: withFields_def logrus_WithFields_def deref_def Let_def split: option.splits)

lemma filepath_Base_example: "filepath_Base ''/src/app/main.go'' = ''main.go''"
  by (simp add: filepath_Base_def)

lemma fmt_d_example: "fmt_d 21 = ''21''"
  by (simp add: fmt_d_def digits10.simps)

text \<open>
  The case between the two of claim C8: the frame is found and its function is not.
  Then \<open>file\<close> is set and \<open>func\<close> is left out.
\<close>

lemma withFields_function_not_found:
  assumes "deref (handles h) l = Some L" and "logger L < length (engines h)"
    and "runtime_Caller w 2 = Some fr" and "runtime_FuncForPC w (frame_pc fr) = None"
  shows "\<exists>e. withFields w l h = Some e \<and> Data e ''func'' = None
           \<and> Data e ''file'' =
                Some (AnyString (filepath_Base (frame_file fr) @ '':'' @ fmt_d (frame_line fr)))"
  unfolding withFields_valid[OF assms(1,2)] using assms(3,4) by simp

section \<open>Properties of the contextual logger\<close>

text \<open>
  Claim C4. On an allocated logger, \<open>WithService s\<close> followed by \<open>WithGroup g\<close> gives a
  logger named \<open>s.g\<close> when \<open>s\<close> is not empty, and \<open>WithGroup g\<close> on a logger with the
  empty service name gives a logger named exactly \<open>g\<close>. Both operations take no world
  (they do no I/O) and are pure on the store: each appends one new \<^verbatim>\<open>Logger\<close> struct at a
  fresh address, with the receiver's engine pointer, and changes neither the receiver,
  nor any other logger, nor any engine.
\<close>

theorem C4_service_and_group:
  assumes "deref (handles h) l = Some L"
  shows "\<exists>l1 h1 l2 h2.
           WithService l s h = Some (l1, h1) \<and> WithGroup l1 g h1 = Some (l2, h2)
         \<and> (s \<noteq> [] \<longrightarrow> map_option serviceName (deref (handles h2) l2) = Some (s @ ''.'' @ g))
         \<and> map_option serviceName (deref (handles h1) l1) = Some s
         \<and> (serviceName L = [] \<longrightarrow>
               (\<exists>l' h'. WithGroup l g h = Some (l', h')
                  \<and> map_option serviceName (deref (handles h') l') = Some g
                  \<and> engines h' = engines h \<and> deref (handles h') l = Some L
                  \<and> deref (handles h) l' = None
                  \<and> handles h' = handles h @ [\<lparr>logger = logger L, serviceName = g\<rparr>]))
         \<and> engines h1 = engines h \<and> engines h2 = engines h
         \<and> deref (handles h1) l = Some L \<and> deref (handles h2) l = Some L
         \<and> deref (handles h2) l1 = deref (handles h1) l1
         \<and> deref (handles h) l1 = None \<and> deref (handles h1) l2 = None
         \<and> handles h1 = handles h @ [\<lparr>logger = logger L, serviceName = s\<rparr>]
         \<and> handles h2 = handles h1 @
              [\<lparr>logger = logger L, serviceName = (if s \<noteq> [] then s @ ''.'' @ g else g)\<rparr>]"
proof -
  let ?h1 = "h\<lparr>handles := handles h @ [\<lparr>logger = logger L, serviceName = s\<rparr>]\<rparr>"
  have l: "l < length (handles h)" "handles h ! l = L"
    using assms by (simp_all add: deref_Some_iff)
  have ws: "WithService l s h = Some (length (handles h), ?h1)"
    by (rule WithService_eq[OF assms])
  have d1: "deref (handles ?h1) (length (handles h)) = Some \<lparr>logger = logger L, serviceName = s\<rparr>"
    by (simp add: deref_append_new)
  note wg = WithGroup_eq[OF d1, of g]
  note wg0 = WithGroup_eq[OF assms, of g]
  show ?thesis
    using l by (simp add: ws wg wg0 deref_def nth_append)
qed

theorem C4_service_and_group_witness:
  "WithService 0 ''svc'' rootHeap =
     Some (1, rootHeap\<lparr>handles := [\<lparr>logger = 0, serviceName = []\<rparr>,
                                    \<lparr>logger = 0, serviceName = ''svc''\<rparr>]\<rparr>)
   \<and> WithGroup 1 ''sub''
        (rootHeap\<lparr>handles := [\<lparr>logger = 0, serviceName = []\<rparr>,
                               \<lparr>logger = 0, serviceName = ''svc''\<rparr>]\<rparr>) =
     Some (2, rootHeap\<lparr>handles := [\<lparr>logger = 0, serviceName = []\<rparr>,
                                    \<lparr>logger = 0, serviceName = ''svc''\<rparr>,
                                    \<lparr>logger = 0, serviceName = ''svc.sub''\<rparr>]\<rparr>)
   \<and> WithGroup 0 ''subservice'' rootHeap =
     Some (1, rootHeap\<lparr>handles := [\<lparr>logger = 0, serviceName = []\<rparr>,
                                    \<lparr>logger = 0, serviceName = ''subservice''\<rparr>]\<rparr>)"
proof -
  have d: "deref (handles rootHeap) 0 = Some \<lparr>logger = 0, serviceName = []\<rparr>"
    by (simp add: deref_def rootHeap_def)
  from C4_service_and_group[OF d, of "''svc''" "''sub''"]
       C4_service_and_group[OF d, of "''svc''" "''subservice''"]
  show ?thesis
    by (simp add: WithService_def WithGroup_def new_Logger_def deref_def rootHeap_def)
qed

text \<open>
  Claim C5. If two loggers share a sink, then \<open>SetLevel X\<close> through the first succeeds
  and afterwards \<open>GetLevel\<close> through either of them gives \<open>X\<close>. A logger derived by
  \<open>WithService\<close> or \<open>WithGroup\<close> shares the sink of its receiver
  (\<open>WithService_sameSink\<close>, \<open>WithGroup_sameSink\<close>), and sharing is symmetric and
  transitive.
\<close>

theorem C5_level_shared:
  assumes "sameSink h l1 l2"
  shows "\<exists>h'. SetLevel l1 X h = Some h' \<and> GetLevel l1 h' = Some X \<and> GetLevel l2 h' = Some X"
  using assms SetLevel_GetLevel unfolding sameSink_iff by blast

text \<open>
  The root logger of a console configuration and the logger derived from it for
  \<^verbatim>\<open>service1\<close>: the level set through the derived logger is read through the root.
\<close>

theorem C5_level_shared_witness:
  "New exampleWorld (testConfig ConsoleOutput [] ''text'') emptyHeap = Some ((Some 0, None), rootHeap)
   \<and> WithService 0 ''service1'' rootHeap =
       Some (1, rootHeap\<lparr>handles := [\<lparr>logger = 0, serviceName = []\<rparr>, \<lparr>logger = 0, serviceName = ''service1''\<rparr>]\<rparr>)
   \<and> sameSink (rootHeap\<lparr>handles := [\<lparr>logger = 0, serviceName = []\<rparr>, \<lparr>logger = 0, serviceName = ''service1''\<rparr>]\<rparr>) 1 0
   \<and> (\<exists>h'. SetLevel 1 DebugLevel (rootHeap\<lparr>handles := [\<lparr>logger = 0, serviceName = []\<rparr>, \<lparr>logger = 0, serviceName = ''service1''\<rparr>]\<rparr>) = Some h'
          \<and> GetLevel 1 h' = Some DebugLevel \<and> GetLevel 0 h' = Some DebugLevel)"
proof -
  let ?h = "rootHeap\<lparr>handles := [\<lparr>logger = 0, serviceName = []\<rparr>, \<lparr>logger = 0, serviceName = ''service1''\<rparr>]\<rparr>"
  have s: "sameSink ?h 1 0"
    by (simp add: sameSink_def deref_def rootHeap_def)
  have n: "New exampleWorld (testConfig ConsoleOutput [] ''text'') emptyHeap = Some ((Some 0, None), rootHeap)"
    by (simp add: testConfig_def output_consts New_eq selectWriters_def
        builtEngine_def exampleWorld_def emptyHeap_def rootHeap_def)
  have w: "WithService 0 ''service1'' rootHeap = Some (1, ?h)"
    by (simp add: WithService_def new_Logger_def deref_def rootHeap_def)
  from C5_level_shared[OF s, of DebugLevel] s n w show ?thesis by simp
qed

text \<open>
  Claim C8. On an allocated logger with an allocated engine, \<open>withFields\<close> and each of
  the twelve logging methods return, in every world: they reach the engine with an
  entry, whether or not the caller's frame is known. If \<^verbatim>\<open>runtime.Caller(2)\<close> reports no
  frame, the entry has neither \<open>func\<close> nor \<open>file\<close>. If introspection succeeds, that is
  the frame is reported and its function is found, \<open>func\<close> is the function's name and
  \<open>file\<close> is the base name of the source file, a colon and the line number.
\<close>

theorem C8_caller_metadata:
  assumes "deref (handles h) l = Some L" and "logger L < length (engines h)"
  shows "\<exists>e. withFields w l h = Some e
           \<and> (runtime_Caller w 2 = None \<longrightarrow>
                Data e ''func'' = None \<and> Data e ''file'' = None)
           \<and> (\<forall>fr fn. runtime_Caller w 2 = Some fr \<and> runtime_FuncForPC w (frame_pc fr) = Some fn \<longrightarrow>
                Data e ''func'' = Some (AnyString fn)
                \<and> Data e ''file'' =
                    Some (AnyString (filepath_Base (frame_file fr) @ '':'' @ fmt_d (frame_line fr))))
           \<and> Debug w l args h = Some (Entry_Log e DebugLevel args)
           \<and> Debugf w l fmt args h = Some (Entry_Logf e DebugLevel fmt args)
           \<and> Info w l args h = Some (Entry_Log e InfoLevel args)
           \<and> Infof w l fmt args h = Some (Entry_Logf e InfoLevel fmt args)
           \<and> Warn w l args h = Some (Entry_Log e WarnLevel args)
           \<and> Warnf w l fmt args h = Some (Entry_Logf e WarnLevel fmt args)
           \<and> Error w l args h = Some (Entry_Log e ErrorLevel args)
           \<and> Errorf w l fmt args h = Some (Entry_Logf e ErrorLevel fmt args)
           \<and> Fatal w l args h = Some (Entry_Log e FatalLevel args)
           \<and> Fatalf w l fmt args h = Some (Entry_Logf e FatalLevel fmt args)
           \<and> Panic w l args h = Some (Entry_Log e PanicLevel args)
           \<and> Panicf w l fmt args h = Some (Entry_Logf e PanicLevel fmt args)"
  unfolding log_method_defs withFields_valid[OF assms]
  by (auto split: option.splits)

text \<open>
  The root logger logging at level info: in a world without a caller frame, and from
  line 21 of \<^verbatim>\<open>/src/app/main.go\<close> in \<^verbatim>\<open>main.main\<close>.
\<close>

theorem C8_caller_metadata_witness:
  "withFields (frameless exampleWorld) 0 rootHeap =
     Some \<lparr>entry_Logger = 0, Data = [''service'' \<mapsto> AnyString []]\<rparr>
   \<and> Info (frameless exampleWorld) 0 [AnyString ''Service started''] rootHeap =
     Some (Entry_Log \<lparr>entry_Logger = 0, Data = [''service'' \<mapsto> AnyString []]\<rparr> InfoLevel
             [AnyString ''Service started''])
   \<and> withFields exampleWorld 0 rootHeap =
     Some \<lparr>entry_Logger = 0,
           Data = [''service'' \<mapsto> AnyString [], ''func'' \<mapsto> AnyString ''main.main'',
                   ''file'' \<mapsto> AnyString ''main.go:21'']\<rparr>
   \<and> Info exampleWorld 0 [AnyString ''Service started''] rootHeap =
     Some (Entry_Log \<lparr>entry_Logger = 0,
           Data = [''service'' \<mapsto> AnyString [], ''func'' \<mapsto> AnyString ''main.main'',
                   ''file'' \<mapsto> AnyString ''main.go:21'']\<rparr> InfoLevel
             [AnyString ''Service started''])"
proof -
  have d: "deref (handles rootHeap) 0 = Some \<lparr>logger = 0, serviceName = []\<rparr>"
    by (simp add: deref_def rootHeap_def)
  have v: "logger \<lparr>logger = 0, serviceName = []\<rparr> < length (engines rootHeap)"
    by (simp add: rootHeap_def)
  have a: "withFields (frameless exampleWorld) 0 rootHeap =
     Some \<lparr>entry_Logger = 0, Data = [''service'' \<mapsto> AnyString []]\<rparr>"
    by (simp add: withFields_valid[OF d v] frameless_def)
  have b: "withFields exampleWorld 0 rootHeap =
     Some \<lparr>entry_Logger = 0,
           Data = [''service'' \<mapsto> AnyString [], ''func'' \<mapsto> AnyString ''main.main'',
                   ''file'' \<mapsto> AnyString ''main.go:21'']\<rparr>"
    by (simp add: withFields_valid[OF d v] exampleWorld_def filepath_Base_example fmt_d_example)
  from C8_caller_metadata[OF d v, of "frameless exampleWorld" "[AnyString ''Service started'']" "''%s''"]
       C8_caller_metadata[OF d v, of exampleWorld "[AnyString ''Service started'']" "''%s''"]
       a b
  show ?thesis by simp
qed




end
